theory Spec2Isabelle
  imports Main "HOL-Library.Word"
begin

section \<open>Go values shared by the handlers\<close>

text \<open>
  A Go \<^verbatim>\<open>error\<close> value as \<^verbatim>\<open>instance.go\<close> meets it: an \<^verbatim>\<open>awserr.Error\<close> with its code and
  message, an error built from a formatted string (\<^verbatim>\<open>fmt.Errorf\<close> with \<^verbatim>\<open>%s\<close> verbs only), and
  an error that wraps another one (\<^verbatim>\<open>fmt.Errorf\<close> with \<^verbatim>\<open>%w\<close>). A nil error is \<open>None\<close> of
  \<open>error option\<close>.
\<close>

datatype error =
    AwsError string string
  | ErrorString string
  | WrapError string error

text \<open>The type assertion \<^verbatim>\<open>err.(awserr.Error)\<close> and the method \<^verbatim>\<open>Code()\<close>.\<close>

fun as_awserr :: "error \<Rightarrow> (string \<times> string) option" where
  "as_awserr (AwsError code msg) = Some (code, msg)"
| "as_awserr (ErrorString s) = None"
| "as_awserr (WrapError p e) = None"

text \<open>
  \<^verbatim>\<open>err.Error()\<close>, which the \<^verbatim>\<open>%s\<close> verb prints. An \<^verbatim>\<open>awserr.Error\<close> without an original
  error prints as its code, a colon and its message.
\<close>

fun Error :: "error \<Rightarrow> string" where
  "Error (AwsError code msg) = code @ '': '' @ msg"
| "Error (ErrorString s) = s"
| "Error (WrapError p e) = p @ Error e"

section \<open>The schema of the resource (\<^verbatim>\<open>ResourceInstance\<close>)\<close>

subsection \<open>\<^verbatim>\<open>key_pair_name\<close>: the diff suppression function\<close>

text \<open>
  Lines 63 to 68. The function receives the attribute's key, the stored and the configured
  value and the resource data; it looks at the two values only, so the resource data is
  any type here.
\<close>

definition DiffSuppressFunc :: "string \<Rightarrow> string \<Rightarrow> string \<Rightarrow> 'd \<Rightarrow> bool" where
  "DiffSuppressFunc k old new d =
     (if old = ''LightsailDefaultKeyPair'' \<and> new = '''' then True else False)"

subsection \<open>\<^verbatim>\<open>name\<close>: the validation function\<close>

text \<open>
  The configured name is a Terraform string, which is valid UTF-8; it is modelled as its
  sequence of Unicode code points. Go's \<^verbatim>\<open>len\<close> counts the bytes of the UTF-8 encoding,
  and \<^verbatim>\<open>regexp\<close> matches code point by code point.
\<close>

type_synonym rune = nat

definition RuneLen :: "rune \<Rightarrow> nat" where
  "RuneLen r = (if r < 128 then 1 else if r < 2048 then 2 else if r < 65536 then 3 else 4)"

definition len :: "rune list \<Rightarrow> nat" where
  "len v = sum_list (map RuneLen v)"

text \<open>
  The regular expressions of package \<^verbatim>\<open>regexp/syntax\<close> that the two patterns need, named
  after its operators. A character class is a list of inclusive ranges, negated or not;
  a negated class matches every other code point, the newline included.
\<close>

datatype regexp =
    NoMatch
  | EmptyMatch
  | CharClass bool "(rune \<times> rune) list"
  | Concat regexp regexp
  | Alternate regexp regexp
  | Star regexp
  | Plus regexp

definition in_class :: "bool \<Rightarrow> (rune \<times> rune) list \<Rightarrow> rune \<Rightarrow> bool" where
  "in_class negated ranges c = (negated \<noteq> list_ex (\<lambda>(lo, hi). lo \<le> c \<and> c \<le> hi) ranges)"

definition AnyChar :: regexp where
  "AnyChar = CharClass True []"

text \<open>Matching by derivatives: \<open>nullable\<close> accepts the empty string, \<open>deriv\<close> consumes one code point.\<close>

primrec nullable :: "regexp \<Rightarrow> bool" where
  "nullable NoMatch = False"
| "nullable EmptyMatch = True"
| "nullable (CharClass negated ranges) = False"
| "nullable (Concat r s) = (nullable r \<and> nullable s)"
| "nullable (Alternate r s) = (nullable r \<or> nullable s)"
| "nullable (Star r) = True"
| "nullable (Plus r) = nullable r"

primrec deriv :: "rune \<Rightarrow> regexp \<Rightarrow> regexp" where
  "deriv c NoMatch = NoMatch"
| "deriv c EmptyMatch = NoMatch"
| "deriv c (CharClass negated ranges) = (if in_class negated ranges c then EmptyMatch else NoMatch)"
| "deriv c (Concat r s) =
     (if nullable r then Alternate (Concat (deriv c r) s) (deriv c s) else Concat (deriv c r) s)"
| "deriv c (Alternate r s) = Alternate (deriv c r) (deriv c s)"
| "deriv c (Star r) = Concat (deriv c r) (Star r)"
| "deriv c (Plus r) = Concat (deriv c r) (Star r)"

definition full_match :: "regexp \<Rightarrow> rune list \<Rightarrow> bool" where
  "full_match r v = nullable (foldl (\<lambda>r c. deriv c r) r v)"

text \<open>
  A compiled pattern: its expression, and whether it starts with \<^verbatim>\<open>^\<close> and ends with \<^verbatim>\<open>$\<close>
  (without the multi-line flag they stand for the beginning and the end of the text).
  \<^verbatim>\<open>MatchString\<close> reports whether the pattern matches somewhere in the string: a side that is
  not anchored may skip any code points.
\<close>

record Regexp =
  BeginText :: bool
  Expr :: regexp
  EndText :: bool

definition MatchString :: "Regexp \<Rightarrow> rune list \<Rightarrow> bool" where
  "MatchString re v =
     full_match
       (Concat (if BeginText re then EmptyMatch else Star AnyChar)
          (Concat (Expr re) (if EndText re then EmptyMatch else Star AnyChar))) v"

text \<open>
  The validators of \<^verbatim>\<open>helper/validation\<close> for a string value under key \<open>k\<close>. Each returns
  its warnings and its errors; an error records what the message reports.
\<close>

datatype validation_error =
    ExpectedLength string nat nat
  | InvalidValue string string

type_synonym SchemaValidateFunc = "rune list \<Rightarrow> string \<Rightarrow> string list \<times> validation_error list"

definition StringLenBetween :: "nat \<Rightarrow> nat \<Rightarrow> SchemaValidateFunc" where
  "StringLenBetween lo hi v k =
     (if len v < lo \<or> len v > hi then ([], [ExpectedLength k lo hi]) else ([], []))"

definition StringMatch :: "Regexp \<Rightarrow> string \<Rightarrow> SchemaValidateFunc" where
  "StringMatch re message v k =
     (if \<not> MatchString re v then ([], [InvalidValue k message]) else ([], []))"

text \<open>\<^verbatim>\<open>validation.All\<close> runs every validator and collects all warnings and all errors.\<close>

definition All :: "SchemaValidateFunc list \<Rightarrow> SchemaValidateFunc" where
  "All validators v k =
     (concat (map (\<lambda>f. fst (f v k)) validators), concat (map (\<lambda>f. snd (f v k)) validators))"

text \<open>Lines 36 and 37: the two patterns, \<^verbatim>\<open>^[a-zA-Z]\<close> and \<^verbatim>\<open>^[a-zA-Z0-9_\-.]+[^._\-]$\<close>.\<close>

definition begins_alphabetic :: Regexp where
  "begins_alphabetic =
     \<lparr>BeginText = True,
      Expr = CharClass False [(of_char CHR ''a'', of_char CHR ''z''), (of_char CHR ''A'', of_char CHR ''Z'')],
      EndText = False\<rparr>"

definition name_characters :: Regexp where
  "name_characters =
     \<lparr>BeginText = True,
      Expr =
        Concat
          (Plus (CharClass False
             [(of_char CHR ''a'', of_char CHR ''z''), (of_char CHR ''A'', of_char CHR ''Z''),
              (of_char CHR ''0'', of_char CHR ''9''), (of_char CHR ''_'', of_char CHR ''_''),
              (of_char CHR ''-'', of_char CHR ''-''), (of_char CHR ''.'', of_char CHR ''.'')]))
          (CharClass True
             [(of_char CHR ''.'', of_char CHR ''.''), (of_char CHR ''_'', of_char CHR ''_''),
              (of_char CHR ''-'', of_char CHR ''-'')]),
      EndText = True\<rparr>"

text \<open>Lines 34 to 38: the \<^verbatim>\<open>ValidateFunc\<close> of \<^verbatim>\<open>name\<close>.\<close>

definition name_ValidateFunc :: SchemaValidateFunc where
  "name_ValidateFunc =
     All [StringLenBetween 2 255,
          StringMatch begins_alphabetic ''must begin with an alphabetic character'',
          StringMatch name_characters
            ''must contain only alphanumeric characters, underscores, hyphens, and dots'']"

text \<open>The schema engine accepts a value when its validation function reports no error.\<close>

definition name_accepted :: "rune list \<Rightarrow> bool" where
  "name_accepted v = (snd (name_ValidateFunc v ''name'') = [])"

subsection \<open>The attribute types\<close>

text \<open>
  The \<^verbatim>\<open>Type\<close> of every attribute of the schema, lines 29 to 128. \<^verbatim>\<open>tags\<close> and \<^verbatim>\<open>tags_all\<close>
  come from \<^verbatim>\<open>tftags.TagsSchema()\<close> and \<^verbatim>\<open>tftags.TagsSchemaComputed()\<close>: maps of strings.
\<close>

datatype ValueType = TypeBool | TypeInt | TypeFloat | TypeString | TypeList | TypeMap

definition Schema :: "(string \<times> ValueType) list" where
  "Schema =
     [(''name'', TypeString),
      (''availability_zone'', TypeString),
      (''blueprint_id'', TypeString),
      (''bundle_id'', TypeString),
      (''key_pair_name'', TypeString),
      (''user_data'', TypeString),
      (''arn'', TypeString),
      (''created_at'', TypeString),
      (''cpu_count'', TypeInt),
      (''ram_size'', TypeFloat),
      (''ip_address_type'', TypeString),
      (''ipv6_address'', TypeString),
      (''ipv6_addresses'', TypeList),
      (''is_static_ip'', TypeBool),
      (''private_ip_address'', TypeString),
      (''public_ip_address'', TypeString),
      (''username'', TypeString),
      (''tags'', TypeMap),
      (''tags_all'', TypeMap)]"

section \<open>The resource data of the schema engine (\<^verbatim>\<open>schema.ResourceData\<close>)\<close>

text \<open>
  An attribute value: a string, an integer, a float (its 64 bits), a boolean, a list of
  strings or a map of strings; \<open>VNil\<close> is the nil interface value.
\<close>

type_synonym float64 = "64 word"

datatype attr_value =
    VNil
  | VBool bool
  | VInt "64 word"
  | VFloat float64
  | VString string
  | VList "string list"
  | VMap "string \<rightharpoonup> string"

primrec type_of :: "attr_value \<Rightarrow> ValueType option" where
  "type_of VNil = None"
| "type_of (VBool b) = Some TypeBool"
| "type_of (VInt n) = Some TypeInt"
| "type_of (VFloat x) = Some TypeFloat"
| "type_of (VString s) = Some TypeString"
| "type_of (VList xs) = Some TypeList"
| "type_of (VMap m) = Some TypeMap"

primrec zero_value :: "ValueType \<Rightarrow> attr_value" where
  "zero_value TypeBool = VBool False"
| "zero_value TypeInt = VInt 0"
| "zero_value TypeFloat = VFloat 0"
| "zero_value TypeString = VString []"
| "zero_value TypeList = VList []"
| "zero_value TypeMap = VMap Map.empty"

text \<open>
  The resource data a handler receives: the tracked identifier, the attributes of the
  prior state, and the attributes as the handler reads them (the configuration merged
  over the state, then whatever the handler has set).
\<close>

record ResourceData =
  rd_Id :: string
  state :: "string \<rightharpoonup> attr_value"
  attrs :: "string \<rightharpoonup> attr_value"

definition d_Id :: "ResourceData \<Rightarrow> string" where
  "d_Id d = rd_Id d"

definition d_SetId :: "string \<Rightarrow> ResourceData \<Rightarrow> ResourceData" where
  "d_SetId v d = d\<lparr>rd_Id := v\<rparr>"

text \<open>\<^verbatim>\<open>d.Get(k)\<close>: the value, or the zero value of the attribute's type when it is not set.\<close>

definition zero_of :: "string \<Rightarrow> attr_value" where
  "zero_of k = (case map_of Schema k of None \<Rightarrow> VNil | Some t \<Rightarrow> zero_value t)"

definition d_Get :: "ResourceData \<Rightarrow> string \<Rightarrow> attr_value" where
  "d_Get d k = (case attrs d k of None \<Rightarrow> zero_of k | Some v \<Rightarrow> v)"

text \<open>\<^verbatim>\<open>d.GetOk(k)\<close>: the value, and whether it is set to something else than the zero value.\<close>

definition d_GetOk :: "ResourceData \<Rightarrow> string \<Rightarrow> attr_value \<times> bool" where
  "d_GetOk d k = (d_Get d k, attrs d k \<noteq> None \<and> d_Get d k \<noteq> zero_of k)"

text \<open>\<^verbatim>\<open>d.GetChange(k)\<close> and \<^verbatim>\<open>d.HasChange(k)\<close>: the value of the prior state and the current one.\<close>

definition d_GetChange :: "ResourceData \<Rightarrow> string \<Rightarrow> attr_value \<times> attr_value" where
  "d_GetChange d k = ((case state d k of None \<Rightarrow> zero_of k | Some v \<Rightarrow> v), d_Get d k)"

definition d_HasChange :: "ResourceData \<Rightarrow> string \<Rightarrow> bool" where
  "d_HasChange d k = (fst (d_GetChange d k) \<noteq> snd (d_GetChange d k))"

text \<open>
  \<^verbatim>\<open>d.Set(k, v)\<close>. A nil pointer (\<open>None\<close>) removes the attribute. The call fails, and changes
  nothing, for a key outside the schema and for a value of another type than the schema's.
\<close>

definition d_Set :: "string \<Rightarrow> attr_value option \<Rightarrow> ResourceData \<Rightarrow> error + ResourceData" where
  "d_Set k v d =
     (case map_of Schema k of
        None \<Rightarrow> Inl (ErrorString (''Invalid address to set: '' @ k))
      | Some t \<Rightarrow>
          (case v of
             None \<Rightarrow> Inr (d\<lparr>attrs := (attrs d)(k := None)\<rparr>)
           | Some x \<Rightarrow>
               if type_of x = Some t then Inr (d\<lparr>attrs := (attrs d)(k \<mapsto> x)\<rparr>)
               else Inl (ErrorString (k @ '': value of another type than the schema has''))))"

text \<open>A call of \<^verbatim>\<open>d.Set\<close> as a statement: its error is dropped.\<close>

definition d_Set_dropped :: "string \<Rightarrow> attr_value option \<Rightarrow> ResourceData \<Rightarrow> ResourceData" where
  "d_Set_dropped k v d = (case d_Set k v d of Inl err \<Rightarrow> d | Inr d' \<Rightarrow> d')"

text \<open>
  The type assertion \<^verbatim>\<open>.(string)\<close> on a value read with \<^verbatim>\<open>d.Get\<close>. The schema engine stores
  only strings under an attribute of \<open>TypeString\<close>, so the assertion does not fail there.
\<close>

definition string_of :: "attr_value \<Rightarrow> string" where
  "string_of v = (case v of VString s \<Rightarrow> s | _ \<Rightarrow> [])"

section \<open>The Lightsail API (\<^verbatim>\<open>aws-sdk-go/service/lightsail\<close>)\<close>

text \<open>
  The structures of the SDK, with the fields \<^verbatim>\<open>instance.go\<close> uses. A pointer field is an
  option (\<open>None\<close> is nil). A field name that two structures share carries a prefix.
\<close>

type_synonym Time = int

record Tag =
  Key :: "string option"
  Value :: "string option"

record Operation =
  op_Id :: "string option"

record CreateInstancesInput =
  req_AvailabilityZone :: "string option"
  req_BlueprintId :: "string option"
  req_BundleId :: "string option"
  req_InstanceNames :: "string option list"
  req_IpAddressType :: "string option"
  req_KeyPairName :: "string option"
  req_Tags :: "Tag list"
  req_UserData :: "string option"

record CreateInstancesOutput =
  create_Operations :: "Operation option list"

record GetInstanceInput =
  get_InstanceName :: "string option"

record ResourceLocation =
  AvailabilityZone :: "string option"

record InstanceHardware =
  CpuCount :: "64 word option"
  RamSizeInGb :: "float64 option"

record Instance =
  Arn :: "string option"
  BlueprintId :: "string option"
  BundleId :: "string option"
  CreatedAt :: "Time option"
  Hardware :: "InstanceHardware option"
  IpAddressType :: "string option"
  Ipv6Addresses :: "string option list"
  IsStaticIp :: "bool option"
  Location :: "ResourceLocation option"
  Name :: "string option"
  PrivateIpAddress :: "string option"
  PublicIpAddress :: "string option"
  SshKeyName :: "string option"
  Tags :: "Tag list"
  Username :: "string option"

record GetInstanceOutput =
  out_Instance :: "Instance option"

record DeleteInstanceInput =
  del_InstanceName :: "string option"

record DeleteInstanceOutput =
  delete_Operations :: "Operation option list"

record SetIpAddressTypeInput =
  set_IpAddressType :: "string option"
  ResourceName :: "string option"
  ResourceType :: "string option"

record SetIpAddressTypeOutput =
  set_Operations :: "Operation option list"

text \<open>\<^verbatim>\<open>aws.StringValueSlice\<close>: a nil element becomes the empty string.\<close>

definition StringValueSlice :: "string option list \<Rightarrow> string list" where
  "StringValueSlice xs = map (\<lambda>x. case x of None \<Rightarrow> [] | Some s \<Rightarrow> s) xs"

text \<open>
  The connection, as one run of a handler sees it. An API operation answers a request
  with an error or with a response (which may be nil). \<open>waitOperation\<close> and \<open>UpdateTags\<close>
  are functions of this package that are not in \<^verbatim>\<open>instance.go\<close>; they work on the connection
  only, and the fields hold what they return on this connection: \<open>waitOperation conn oid\<close>
  is the result of \<^verbatim>\<open>waitOperation(conn, oid)\<close>.
\<close>

record conn =
  CreateInstances :: "CreateInstancesInput \<Rightarrow> error + CreateInstancesOutput option"
  GetInstance :: "GetInstanceInput \<Rightarrow> error + GetInstanceOutput option"
  DeleteInstance :: "DeleteInstanceInput \<Rightarrow> error + DeleteInstanceOutput option"
  SetIpAddressType :: "SetIpAddressTypeInput \<Rightarrow> error + SetIpAddressTypeOutput option"
  waitOperation :: "string option \<Rightarrow> error option"
  UpdateTags :: "string \<Rightarrow> attr_value \<Rightarrow> attr_value \<Rightarrow> error option"

section \<open>Tags (\<^verbatim>\<open>internal/tags\<close>) and the provider's client\<close>

text \<open>A set of tags, \<^verbatim>\<open>tftags.KeyValueTags\<close>: a map from the key to the value.\<close>

type_synonym KeyValueTags = "string \<rightharpoonup> string"

record DefaultConfig =
  default_Tags :: KeyValueTags

record IgnoreConfig =
  ignore_Keys :: KeyValueTags
  ignore_KeyPrefixes :: KeyValueTags

text \<open>\<^verbatim>\<open>conns.AWSClient\<close>, the \<^verbatim>\<open>meta\<close> argument of every handler.\<close>

record AWSClient =
  LightsailConn :: conn
  DefaultTagsConfig :: DefaultConfig
  IgnoreTagsConfig :: IgnoreConfig

text \<open>
  The functions on tags that \<^verbatim>\<open>instance.go\<close> calls and that are defined outside it, and the
  formatting of a time as RFC 3339 of Go's library. The handlers take them as parameters:
  \<^verbatim>\<open>tftags.New\<close>, \<^verbatim>\<open>DefaultConfig.MergeTags\<close>, \<^verbatim>\<open>KeyValueTags.IgnoreAWS\<close>,
  \<^verbatim>\<open>KeyValueTags.IgnoreConfig\<close>, and the package's \<^verbatim>\<open>KeyValueTags\<close> and \<^verbatim>\<open>Tags\<close>, which convert
  between the API's list of tags and a set of tags.
\<close>

record helpers =
  tftags_New :: "attr_value \<Rightarrow> KeyValueTags"
  MergeTags :: "DefaultConfig \<Rightarrow> KeyValueTags \<Rightarrow> KeyValueTags"
  tags_IgnoreAWS :: "KeyValueTags \<Rightarrow> KeyValueTags"
  tags_IgnoreConfig :: "IgnoreConfig \<Rightarrow> KeyValueTags \<Rightarrow> KeyValueTags"
  KeyValueTags_of :: "Tag list \<Rightarrow> KeyValueTags"
  Tags_of :: "KeyValueTags \<Rightarrow> Tag list"
  Format_RFC3339 :: "Time \<Rightarrow> string"

text \<open>
  Modelled from the spec: \<^verbatim>\<open>KeyValueTags.RemoveDefaultConfig\<close> and \<^verbatim>\<open>KeyValueTags.Map\<close> of
  \<^verbatim>\<open>internal/tags\<close> are not among the source files. The spec has the tag set exposed "with
  defaults removed": a tag (a key with its value) that the default configuration holds
  is dropped, every other tag is kept. \<open>tags_Map\<close> is the same tags as a map of strings.
\<close>

definition tags_RemoveDefaultConfig :: "DefaultConfig \<Rightarrow> KeyValueTags \<Rightarrow> KeyValueTags" where
  "tags_RemoveDefaultConfig dc tags =
     (\<lambda>k. if tags k \<noteq> None \<and> default_Tags dc k = tags k then None else tags k)"

definition tags_Map :: "KeyValueTags \<Rightarrow> (string \<rightharpoonup> string)" where
  "tags_Map tags = tags"

section \<open>What a handler does\<close>

text \<open>
  A handler returns an error or nil, changes the resource data, writes to the log and
  calls the API; or it panics. An outcome holds the returned error, the resource data
  as the handler leaves it, and the log lines and calls in the order they happened.
\<close>

datatype event =
    Log string
  | CallCreateInstances CreateInstancesInput
  | CallGetInstance GetInstanceInput
  | CallDeleteInstance DeleteInstanceInput
  | CallSetIpAddressType SetIpAddressTypeInput
  | CallWaitOperation "string option"
  | CallUpdateTags string attr_value attr_value

datatype panic = IndexOutOfRange | NilPointerDereference

datatype outcome =
    Return "error option" ResourceData "event list"
  | Panic panic "event list"

text \<open>The outcome of a handler that another one calls last, after the caller's own events.\<close>

primrec after :: "event list \<Rightarrow> outcome \<Rightarrow> outcome" where
  "after evs (Return err d evs') = Return err d (evs @ evs')"
| "after evs (Panic p evs') = Panic p (evs @ evs')"

primrec events :: "outcome \<Rightarrow> event list" where
  "events (Return err d evs) = evs"
| "events (Panic p evs) = evs"

text \<open>The operation identifiers a run has waited on, in order.\<close>

fun waits :: "event list \<Rightarrow> string option list" where
  "waits [] = []"
| "waits (CallWaitOperation oid # evs) = oid # waits evs"
| "waits (ev # evs) = waits evs"

section \<open>The handlers of \<^verbatim>\<open>instance.go\<close>\<close>

subsection \<open>\<^verbatim>\<open>resourceInstanceRead\<close>, lines 186 to 251\<close>

definition resourceInstanceRead :: "helpers \<Rightarrow> ResourceData \<Rightarrow> AWSClient \<Rightarrow> outcome" where
  "resourceInstanceRead h d meta =
     (let conn = LightsailConn meta;
          defaultTagsConfig = DefaultTagsConfig meta;
          ignoreTagsConfig = IgnoreTagsConfig meta;
          input = \<lparr>get_InstanceName = Some (d_Id d)\<rparr>;
          called = [CallGetInstance input]
      in case GetInstance conn input of
           Inl err \<Rightarrow>
             (case as_awserr err of
                Some (code, msg) \<Rightarrow>
                  if code = ''NotFoundException''
                  then Return None (d_SetId [] d)
                         (called @ [Log (''[WARN] Lightsail Instance ('' @ d_Id d @
                                         '') not found, removing from state'')])
                  else Return (Some err) d called
              | None \<Rightarrow> Return (Some err) d called)
         | Inr None \<Rightarrow>
             Return None (d_SetId [] d)
               (called @ [Log (''[WARN] Lightsail Instance ('' @ d_Id d @
                               '') not found, nil response from server, removing from state'')])
         | Inr (Some resp) \<Rightarrow>
             (case out_Instance resp of
                None \<Rightarrow> Panic NilPointerDereference called
              | Some i \<Rightarrow>
             (case Location i of
                None \<Rightarrow> Panic NilPointerDereference called
              | Some location \<Rightarrow>
             (let d = d_Set_dropped ''availability_zone'' (map_option VString (AvailabilityZone location)) d;
                  d = d_Set_dropped ''blueprint_id'' (map_option VString (BlueprintId i)) d;
                  d = d_Set_dropped ''bundle_id'' (map_option VString (BundleId i)) d;
                  d = d_Set_dropped ''key_pair_name'' (map_option VString (SshKeyName i)) d;
                  d = d_Set_dropped ''name'' (map_option VString (Name i)) d;
                  d = d_Set_dropped ''arn'' (map_option VString (Arn i)) d;
                  d = d_Set_dropped ''username'' (map_option VString (Username i)) d
              in case CreatedAt i of
                   None \<Rightarrow> Panic NilPointerDereference called
                 | Some createdAt \<Rightarrow>
             (let d = d_Set_dropped ''created_at'' (Some (VString (Format_RFC3339 h createdAt))) d
              in case Hardware i of
                   None \<Rightarrow> Panic NilPointerDereference called
                 | Some hardware \<Rightarrow>
             (let d = d_Set_dropped ''cpu_count'' (map_option VInt (CpuCount hardware)) d;
                  d = d_Set_dropped ''ram_size'' (map_option VFloat (RamSizeInGb hardware)) d;
                  d = (if length (Ipv6Addresses i) > 0
                       then d_Set_dropped ''ipv6_address'' (map_option VString (Ipv6Addresses i ! 0)) d
                       else d);
                  d = d_Set_dropped ''ipv6_addresses'' (Some (VList (StringValueSlice (Ipv6Addresses i)))) d;
                  d = d_Set_dropped ''ip_address_type'' (map_option VString (IpAddressType i)) d;
                  d = d_Set_dropped ''is_static_ip'' (map_option VBool (IsStaticIp i)) d;
                  d = d_Set_dropped ''private_ip_address'' (map_option VString (PrivateIpAddress i)) d;
                  d = d_Set_dropped ''public_ip_address'' (map_option VString (PublicIpAddress i)) d;
                  tags = tags_IgnoreConfig h ignoreTagsConfig (tags_IgnoreAWS h (KeyValueTags_of h (Tags i)))
              in case d_Set ''tags'' (Some (VMap (tags_Map (tags_RemoveDefaultConfig defaultTagsConfig tags)))) d of
                   Inl err \<Rightarrow> Return (Some (WrapError ''error setting tags: '' err)) d called
                 | Inr d \<Rightarrow>
                     (case d_Set ''tags_all'' (Some (VMap (tags_Map tags))) d of
                        Inl err \<Rightarrow> Return (Some (WrapError ''error setting tags_all: '' err)) d called
                      | Inr d \<Rightarrow> Return None d called)))))))"

subsection \<open>\<^verbatim>\<open>resourceInstanceCreate\<close>, lines 134 to 184\<close>

text \<open>Lines 136 to 162: the request.\<close>

definition CreateInstancesInput_of :: "helpers \<Rightarrow> ResourceData \<Rightarrow> AWSClient \<Rightarrow> CreateInstancesInput" where
  "CreateInstancesInput_of h d meta =
     (let defaultTagsConfig = DefaultTagsConfig meta;
          tags = MergeTags h defaultTagsConfig (tftags_New h (d_Get d ''tags''));
          iName = string_of (d_Get d ''name'');
          req = \<lparr>req_AvailabilityZone = Some (string_of (d_Get d ''availability_zone'')),
                 req_BlueprintId = Some (string_of (d_Get d ''blueprint_id'')),
                 req_BundleId = Some (string_of (d_Get d ''bundle_id'')),
                 req_InstanceNames = [Some iName],
                 req_IpAddressType = None,
                 req_KeyPairName = None,
                 req_Tags = [],
                 req_UserData = None\<rparr>;
          req = (case d_GetOk d ''key_pair_name'' of
                   (v, ok) \<Rightarrow> if ok then req\<lparr>req_KeyPairName := Some (string_of v)\<rparr> else req);
          req = (case d_GetOk d ''user_data'' of
                   (v, ok) \<Rightarrow> if ok then req\<lparr>req_UserData := Some (string_of v)\<rparr> else req);
          req = (case d_GetOk d ''ip_address_type'' of
                   (v, ok) \<Rightarrow> if ok then req\<lparr>req_IpAddressType := Some (string_of v)\<rparr> else req);
          req = (if tags \<noteq> Map.empty then req\<lparr>req_Tags := Tags_of h (tags_IgnoreAWS h tags)\<rparr> else req)
      in req)"

text \<open>Lines 164 to 183.\<close>

definition resourceInstanceCreate :: "helpers \<Rightarrow> ResourceData \<Rightarrow> AWSClient \<Rightarrow> outcome" where
  "resourceInstanceCreate h d meta =
     (let conn = LightsailConn meta;
          req = CreateInstancesInput_of h d meta;
          called = [CallCreateInstances req]
      in case CreateInstances conn req of
           Inl err \<Rightarrow> Return (Some err) d called
         | Inr None \<Rightarrow> Panic NilPointerDereference called
         | Inr (Some resp) \<Rightarrow>
             if length (create_Operations resp) = 0
             then Return (Some (ErrorString ''No operations found for CreateInstance request'')) d called
             else
               (let op = create_Operations resp ! 0;
                    d = d_SetId (string_of (d_Get d ''name'')) d
                in case op of
                     None \<Rightarrow> Panic NilPointerDereference called
                   | Some op \<Rightarrow>
                       (let err = waitOperation conn (op_Id op);
                            called = called @ [CallWaitOperation (op_Id op)];
                            logged =
                              (case err of
                                 None \<Rightarrow> []
                               | Some err \<Rightarrow>
                                   [Log (''[ERR] Error waiting for instance ('' @ d_Id d @
                                         '') to become ready: '' @ Error err)])
                        in after (called @ logged) (resourceInstanceRead h d meta))))"

subsection \<open>\<^verbatim>\<open>resourceInstanceDelete\<close>, lines 253 to 274\<close>

definition resourceInstanceDelete :: "ResourceData \<Rightarrow> AWSClient \<Rightarrow> outcome" where
  "resourceInstanceDelete d meta =
     (let conn = LightsailConn meta;
          input = \<lparr>del_InstanceName = Some (d_Id d)\<rparr>;
          called = [CallDeleteInstance input]
      in case DeleteInstance conn input of
           Inl err \<Rightarrow> Return (Some err) d called
         | Inr None \<Rightarrow> Panic NilPointerDereference called
         | Inr (Some resp) \<Rightarrow>
             (case delete_Operations resp of
                [] \<Rightarrow> Panic IndexOutOfRange called
              | None # later \<Rightarrow> Panic NilPointerDereference called
              | Some op # later \<Rightarrow>
                  (let err = waitOperation conn (op_Id op);
                       called = called @ [CallWaitOperation (op_Id op)]
                   in case err of
                        Some err \<Rightarrow>
                          Return (Some (ErrorString (''Error waiting for instance ('' @ d_Id d @
                                                     '') to become destroyed: '' @ Error err))) d called
                      | None \<Rightarrow> Return None d called)))"

subsection \<open>\<^verbatim>\<open>resourceInstanceUpdate\<close>, lines 276 to 311\<close>

text \<open>
  Each of the two conditional blocks either returns from the handler (\<open>Inl\<close>, with the
  outcome) or falls through to the next statement (\<open>Inr\<close>, with the events so far).
\<close>

text \<open>Lines 279 to 300.\<close>

definition update_ip_address_type :: "ResourceData \<Rightarrow> conn \<Rightarrow> outcome + event list" where
  "update_ip_address_type d conn =
     (if d_HasChange d ''ip_address_type''
      then
        (let input = \<lparr>set_IpAddressType = Some (string_of (d_Get d ''ip_address_type'')),
                       ResourceName = Some (d_Id d),
                       ResourceType = Some ''Instance''\<rparr>;
             called = [CallSetIpAddressType input]
         in case SetIpAddressType conn input of
              Inl err \<Rightarrow> Inl (Return (Some err) d called)
            | Inr None \<Rightarrow> Inl (Panic NilPointerDereference called)
            | Inr (Some resp) \<Rightarrow>
                if length (set_Operations resp) = 0
                then Inl (Return (Some (ErrorString ''No operations found for CreateInstance request'')) d called)
                else
                  (case set_Operations resp ! 0 of
                     None \<Rightarrow> Inl (Panic NilPointerDereference called)
                   | Some op \<Rightarrow>
                       (let err = waitOperation conn (op_Id op);
                            called = called @ [CallWaitOperation (op_Id op)]
                        in case err of
                             Some err \<Rightarrow> Inl (Return (Some err) d called)
                           | None \<Rightarrow> Inr called)))
      else Inr [])"

text \<open>Lines 302 to 308.\<close>

definition update_tags_all :: "ResourceData \<Rightarrow> conn \<Rightarrow> event list \<Rightarrow> outcome + event list" where
  "update_tags_all d conn called =
     (if d_HasChange d ''tags_all''
      then
        (case d_GetChange d ''tags_all'' of
           (o', n) \<Rightarrow>
             (let called = called @ [CallUpdateTags (d_Id d) o' n]
              in case UpdateTags conn (d_Id d) o' n of
                   Some err \<Rightarrow>
                     Inl (Return (Some (ErrorString (''error updating Lightsail Instance ('' @ d_Id d @
                                                     '') tags: '' @ Error err))) d called)
                 | None \<Rightarrow> Inr called))
      else Inr called)"

definition resourceInstanceUpdate :: "helpers \<Rightarrow> ResourceData \<Rightarrow> AWSClient \<Rightarrow> outcome" where
  "resourceInstanceUpdate h d meta =
     (let conn = LightsailConn meta
      in case update_ip_address_type d conn of
           Inl returned \<Rightarrow> returned
         | Inr called \<Rightarrow>
             (case update_tags_all d conn called of
                Inl returned \<Rightarrow> returned
              | Inr called \<Rightarrow> after called (resourceInstanceRead h d meta)))"

section \<open>Connections that differ in the later operations only\<close>

text \<open>
  The connection that answers as \<open>conn\<close> does, except that every list of operations in a
  response of \<^verbatim>\<open>CreateInstances\<close>, \<^verbatim>\<open>DeleteInstance\<close> and \<^verbatim>\<open>SetIpAddressType\<close> is cut after
  its first element.
\<close>

definition first_only :: "conn \<Rightarrow> conn" where
  "first_only conn =
     conn\<lparr>CreateInstances :=
            (\<lambda>req. map_sum id (map_option (\<lambda>resp. resp\<lparr>create_Operations := take 1 (create_Operations resp)\<rparr>))
                     (CreateInstances conn req)),
          DeleteInstance :=
            (\<lambda>input. map_sum id (map_option (\<lambda>resp. resp\<lparr>delete_Operations := take 1 (delete_Operations resp)\<rparr>))
                       (DeleteInstance conn input)),
          SetIpAddressType :=
            (\<lambda>input. map_sum id (map_option (\<lambda>resp. resp\<lparr>set_Operations := take 1 (set_Operations resp)\<rparr>))
                       (SetIpAddressType conn input))\<rparr>"

section \<open>A concrete run\<close>

text \<open>
  An instance \<^verbatim>\<open>test1\<close>, a connection whose mutating calls each return two operations and
  whose wait fails on the first of them, and simple instances of the functions the
  handlers take as parameters.
\<close>

definition example_instance :: Instance where
  "example_instance =
     \<lparr>Arn = Some ''arn:aws:lightsail:us-east-1:123456789012:Instance/test1'',
      BlueprintId = Some ''amazon_linux'',
      BundleId = Some ''nano_1_0'',
      CreatedAt = Some 1667260800,
      Hardware = Some \<lparr>CpuCount = Some 1, RamSizeInGb = Some 4602678819172646912\<rparr>,
      IpAddressType = Some ''dualstack'',
      Ipv6Addresses = [Some ''2001:db8::1''],
      IsStaticIp = Some False,
      Location = Some \<lparr>AvailabilityZone = Some ''us-east-1a''\<rparr>,
      Name = Some ''test1'',
      PrivateIpAddress = Some ''172.26.0.5'',
      PublicIpAddress = Some ''203.0.113.7'',
      SshKeyName = Some ''LightsailDefaultKeyPair'',
      Tags = [\<lparr>Key = Some ''env'', Value = Some ''prod''\<rparr>, \<lparr>Key = Some ''team'', Value = Some ''infra''\<rparr>],
      Username = Some ''ec2-user''\<rparr>"

definition example_conn :: conn where
  "example_conn =
     \<lparr>CreateInstances =
        (\<lambda>req. Inr (Some \<lparr>create_Operations = [Some \<lparr>op_Id = Some ''op-1''\<rparr>, Some \<lparr>op_Id = Some ''op-2''\<rparr>]\<rparr>)),
      GetInstance = (\<lambda>input. Inr (Some \<lparr>out_Instance = Some example_instance\<rparr>)),
      DeleteInstance =
        (\<lambda>input. Inr (Some \<lparr>delete_Operations = [Some \<lparr>op_Id = Some ''op-1''\<rparr>, Some \<lparr>op_Id = Some ''op-2''\<rparr>]\<rparr>)),
      SetIpAddressType =
        (\<lambda>input. Inr (Some \<lparr>set_Operations = [Some \<lparr>op_Id = Some ''op-1''\<rparr>, Some \<lparr>op_Id = Some ''op-2''\<rparr>]\<rparr>)),
      waitOperation = (\<lambda>oid. if oid = Some ''op-1'' then Some (ErrorString ''timeout while waiting'') else None),
      UpdateTags = (\<lambda>name old new. None)\<rparr>"

definition example_meta :: AWSClient where
  "example_meta =
     \<lparr>LightsailConn = example_conn,
      DefaultTagsConfig = \<lparr>default_Tags = [''team'' \<mapsto> ''infra'']\<rparr>,
      IgnoreTagsConfig = \<lparr>ignore_Keys = Map.empty, ignore_KeyPrefixes = Map.empty\<rparr>\<rparr>"

definition example_helpers :: helpers where
  "example_helpers =
     \<lparr>tftags_New = (\<lambda>v. case v of VMap m \<Rightarrow> m | _ \<Rightarrow> Map.empty),
      MergeTags = (\<lambda>dc tags. default_Tags dc ++ tags),
      tags_IgnoreAWS = (\<lambda>tags. tags),
      tags_IgnoreConfig = (\<lambda>ic tags k. if ignore_Keys ic k = None then tags k else None),
      KeyValueTags_of =
        (\<lambda>ts. map_of (map (\<lambda>t. (case Key t of None \<Rightarrow> [] | Some k \<Rightarrow> k,
                                   case Value t of None \<Rightarrow> [] | Some v \<Rightarrow> v)) ts)),
      Tags_of = (\<lambda>tags. map (\<lambda>k. \<lparr>Key = Some k, Value = tags k\<rparr>) (filter (\<lambda>k. tags k \<noteq> None) [''env'', ''team''])),
      Format_RFC3339 = (\<lambda>t. ''2022-11-01T00:00:00Z'')\<rparr>"

definition example_data :: ResourceData where
  "example_data =
     \<lparr>rd_Id = ''test1'',
      state = [''name'' \<mapsto> VString ''test1'', ''ip_address_type'' \<mapsto> VString ''dualstack''],
      attrs = [''name'' \<mapsto> VString ''test1'',
               ''availability_zone'' \<mapsto> VString ''us-east-1a'',
               ''blueprint_id'' \<mapsto> VString ''amazon_linux'',
               ''bundle_id'' \<mapsto> VString ''nano_1_0'',
               ''ip_address_type'' \<mapsto> VString ''ipv4'']\<rparr>"

section \<open>The name pattern as the spec words it\<close>

text \<open>
  The spec's constraint on \<^verbatim>\<open>name\<close>: it starts with an alphabetic character, holds only
  characters of \<^verbatim>\<open>[A-Za-z0-9_.-]\<close>, does not end with a dot, an underscore or a hyphen, and
  its length is between 2 and 255.
\<close>

definition alphabetic :: "rune \<Rightarrow> bool" where
  "alphabetic c = ((of_char CHR ''a'' \<le> c \<and> c \<le> of_char CHR ''z'') \<or> (of_char CHR ''A'' \<le> c \<and> c \<le> of_char CHR ''Z''))"

definition name_character :: "rune \<Rightarrow> bool" where
  "name_character c =
     (alphabetic c \<or> (of_char CHR ''0'' \<le> c \<and> c \<le> of_char CHR ''9'') \<or>
      c = of_char CHR ''_'' \<or> c = of_char CHR ''.'' \<or> c = of_char CHR ''-'')"

definition spec_name_valid :: "rune list \<Rightarrow> bool" where
  "spec_name_valid v =
     (v \<noteq> [] \<and> alphabetic (hd v) \<and> list_all name_character v \<and>
      last v \<noteq> of_char CHR ''.'' \<and> last v \<noteq> of_char CHR ''_'' \<and> last v \<noteq> of_char CHR ''-'' \<and>
      2 \<le> len v \<and> len v \<le> 255)"

section \<open>Waiting for an operation\<close>

text \<open>
  Modelled from the spec: \<^verbatim>\<open>waitOperation\<close>, the spec's \<^verbatim>\<open>await(operationId)\<close>, is not among
  the source files. The spec (4.1, 7): it fetches the operation's status again and again,
  at a fixed or backoff-governed interval, until the status is a terminal success (it
  returns success), a terminal failure (it returns a failure with the vendor's reason), or
  the maximum wait duration has elapsed (it returns a timeout). A lookup error is retried
  a bounded number of times, then surfaced as a transient API error; a not-found answer
  for an identifier never seen before is an immediate hard error.

  Time is counted in units from the start of the wait. \<open>delay p n\<close> is the interval after
  the \<open>n\<close>-th fetch, \<open>ceiling p\<close> the maximum wait duration, \<open>retries p\<close> the bound on retried
  lookup errors. The vendor's answer to a fetch for identifier \<open>oid\<close> at time \<open>t\<close> is
  \<open>vendor oid t\<close>. With an interval of zero the loop may fetch forever: the result is an
  option, and \<open>None\<close> is a wait that does not return.
\<close>

datatype status = Pending | Succeeded | Failed string

datatype fetched = Status status | LookupError | OperationNotFound

datatype await_result = Terminal | Timeout | Failure string | TransientAPIError | Misuse

record await_policy =
  delay :: "nat \<Rightarrow> nat"
  ceiling :: nat
  retries :: nat

partial_function (option) await_from ::
    "await_policy \<Rightarrow> (nat \<Rightarrow> fetched) \<Rightarrow> nat \<Rightarrow> bool \<Rightarrow> nat \<Rightarrow> nat \<Rightarrow> await_result option" where
  "await_from p fetch left seen n t =
     (if ceiling p \<le> t then Some Timeout
      else
        (case fetch t of
           Status Pending \<Rightarrow> await_from p fetch left True (Suc n) (t + delay p n)
         | Status Succeeded \<Rightarrow> Some Terminal
         | Status (Failed reason) \<Rightarrow> Some (Failure reason)
         | LookupError \<Rightarrow>
             (if left = 0 then Some TransientAPIError
              else await_from p fetch (left - 1) seen (Suc n) (t + delay p n))
         | OperationNotFound \<Rightarrow>
             (if \<not> seen then Some Misuse
              else if left = 0 then Some TransientAPIError
              else await_from p fetch (left - 1) seen (Suc n) (t + delay p n))))"

definition await :: "await_policy \<Rightarrow> (string \<Rightarrow> nat \<Rightarrow> fetched) \<Rightarrow> string \<Rightarrow> await_result option" where
  "await p vendor oid = await_from p (vendor oid) (retries p) False 0 0"

section \<open>The attributes a read writes\<close>

text \<open>
  The keys that \<^verbatim>\<open>resourceInstanceRead\<close> sets once it has the instance, its location, its
  creation time and its hardware, each with the value set (\<open>None\<close> for a nil pointer), in
  the order of lines 215 to 246. A later write to the same key wins.
\<close>

definition read_writes ::
    "helpers \<Rightarrow> AWSClient \<Rightarrow> Instance \<Rightarrow> ResourceLocation \<Rightarrow> Time \<Rightarrow> InstanceHardware \<Rightarrow>
     (string \<times> attr_value option) list" where
  "read_writes h meta i location createdAt hardware =
     [(''availability_zone'', map_option VString (AvailabilityZone location)),
      (''blueprint_id'', map_option VString (BlueprintId i)),
      (''bundle_id'', map_option VString (BundleId i)),
      (''key_pair_name'', map_option VString (SshKeyName i)),
      (''name'', map_option VString (Name i)),
      (''arn'', map_option VString (Arn i)),
      (''username'', map_option VString (Username i)),
      (''created_at'', Some (VString (Format_RFC3339 h createdAt))),
      (''cpu_count'', map_option VInt (CpuCount hardware)),
      (''ram_size'', map_option VFloat (RamSizeInGb hardware))] @
     (if length (Ipv6Addresses i) > 0
      then [(''ipv6_address'', map_option VString (Ipv6Addresses i ! 0))] else []) @
     [(''ipv6_addresses'', Some (VList (StringValueSlice (Ipv6Addresses i)))),
      (''ip_address_type'', map_option VString (IpAddressType i)),
      (''is_static_ip'', map_option VBool (IsStaticIp i)),
      (''private_ip_address'', map_option VString (PrivateIpAddress i)),
      (''public_ip_address'', map_option VString (PublicIpAddress i)),
      (''tags'',
       Some (VMap (tags_Map (tags_RemoveDefaultConfig (DefaultTagsConfig meta)
          (tags_IgnoreConfig h (IgnoreTagsConfig meta) (tags_IgnoreAWS h (KeyValueTags_of h (Tags i)))))))),
      (''tags_all'',
       Some (VMap (tags_Map
          (tags_IgnoreConfig h (IgnoreTagsConfig meta) (tags_IgnoreAWS h (KeyValueTags_of h (Tags i)))))))]"

definition write_all :: "('k \<times> 'v option) list \<Rightarrow> ('k \<rightharpoonup> 'v) \<Rightarrow> ('k \<rightharpoonup> 'v)" where
  "write_all kvs m = fold (\<lambda>(k, v) m. m(k := v)) kvs m"

section \<open>Properties\<close>

text \<open>
  Claim C10. For \<^verbatim>\<open>key_pair_name\<close>, the diff from the stored value
  \<^verbatim>\<open>LightsailDefaultKeyPair\<close> to the configured empty string is suppressed, and no other pair
  of stored and configured values is: the function is true exactly at that pair, whatever
  the key and the resource data.
\<close>

theorem key_pair_name_diff_suppressed_exactly:
  "DiffSuppressFunc k old new d = (old = ''LightsailDefaultKeyPair'' \<and> new = '''')"
  by (simp add: DiffSuppressFunc_def)


text \<open>
  Claim C3. When \<^verbatim>\<open>GetInstance\<close> fails, \<^verbatim>\<open>resourceInstanceRead\<close> does one of two things. For
  a not-found error (an \<^verbatim>\<open>awserr.Error\<close> whose code is \<^verbatim>\<open>NotFoundException\<close>) it sets the
  resource's identifier to the empty string, logs a warning and returns nil. For every
  other error it returns that very error and leaves the resource data as it was.
\<close>

theorem read_get_instance_error:
  assumes "GetInstance (LightsailConn meta) \<lparr>get_InstanceName = Some (d_Id d)\<rparr> = Inl err"
  shows "resourceInstanceRead h d meta =
           (if \<exists>msg. err = AwsError ''NotFoundException'' msg
            then Return None (d_SetId [] d)
                   [CallGetInstance \<lparr>get_InstanceName = Some (d_Id d)\<rparr>,
                    Log (''[WARN] Lightsail Instance ('' @ d_Id d @ '') not found, removing from state'')]
            else Return (Some err) d [CallGetInstance \<lparr>get_InstanceName = Some (d_Id d)\<rparr>])"
  using assms by (cases err) (auto simp: resourceInstanceRead_def Let_def)

theorem read_get_instance_error_witness:
  "resourceInstanceRead example_helpers example_data
     (example_meta\<lparr>LightsailConn :=
        example_conn\<lparr>GetInstance := \<lambda>input. Inl (AwsError ''NotFoundException'' ''no such instance'')\<rparr>\<rparr>) =
     Return None (example_data\<lparr>rd_Id := []\<rparr>)
       [CallGetInstance \<lparr>get_InstanceName = Some ''test1''\<rparr>,
        Log ''[WARN] Lightsail Instance (test1) not found, removing from state'']
   \<and> resourceInstanceRead example_helpers example_data
     (example_meta\<lparr>LightsailConn :=
        example_conn\<lparr>GetInstance := \<lambda>input. Inl (AwsError ''ThrottlingException'' ''rate exceeded'')\<rparr>\<rparr>) =
     Return (Some (AwsError ''ThrottlingException'' ''rate exceeded'')) example_data
       [CallGetInstance \<lparr>get_InstanceName = Some ''test1''\<rparr>]"
proof -
  let ?gone = "example_meta\<lparr>LightsailConn :=
        example_conn\<lparr>GetInstance := \<lambda>input. Inl (AwsError ''NotFoundException'' ''no such instance'')\<rparr>\<rparr>"
  let ?busy = "example_meta\<lparr>LightsailConn :=
        example_conn\<lparr>GetInstance := \<lambda>input. Inl (AwsError ''ThrottlingException'' ''rate exceeded'')\<rparr>\<rparr>"
  have gone: "GetInstance (LightsailConn ?gone) \<lparr>get_InstanceName = Some (d_Id example_data)\<rparr> =
                Inl (AwsError ''NotFoundException'' ''no such instance'')"
    by simp
  have busy: "GetInstance (LightsailConn ?busy) \<lparr>get_InstanceName = Some (d_Id example_data)\<rparr> =
                Inl (AwsError ''ThrottlingException'' ''rate exceeded'')"
    by simp
  show ?thesis
    using read_get_instance_error [OF gone, of example_helpers]
          read_get_instance_error [OF busy, of example_helpers]
    by (simp add: d_Id_def d_SetId_def example_data_def)
qed

text \<open>
  Claim C2. When \<^verbatim>\<open>DeleteInstance\<close> succeeds and the wait on the operation it returned
  fails, \<^verbatim>\<open>resourceInstanceDelete\<close> returns an error, never nil: the error's message names
  the instance identifier and ends with the message of the wait's error.
\<close>

theorem delete_wait_failure_fails:
  assumes "DeleteInstance (LightsailConn meta) \<lparr>del_InstanceName = Some (d_Id d)\<rparr> = Inr (Some resp)"
      and "delete_Operations resp = Some op # later"
      and "waitOperation (LightsailConn meta) (op_Id op) = Some err"
  shows "resourceInstanceDelete d meta =
           Return (Some (ErrorString (''Error waiting for instance ('' @ d_Id d @
                                      '') to become destroyed: '' @ Error err))) d
             [CallDeleteInstance \<lparr>del_InstanceName = Some (d_Id d)\<rparr>, CallWaitOperation (op_Id op)]"
  using assms by (simp add: resourceInstanceDelete_def Let_def)

theorem delete_wait_failure_fails_witness:
  "resourceInstanceDelete example_data example_meta =
     Return (Some (ErrorString
        ''Error waiting for instance (test1) to become destroyed: timeout while waiting'')) example_data
       [CallDeleteInstance \<lparr>del_InstanceName = Some ''test1''\<rparr>, CallWaitOperation (Some ''op-1'')]"
proof -
  have deleted: "DeleteInstance (LightsailConn example_meta) \<lparr>del_InstanceName = Some (d_Id example_data)\<rparr> =
                   Inr (Some \<lparr>delete_Operations = [Some \<lparr>op_Id = Some ''op-1''\<rparr>, Some \<lparr>op_Id = Some ''op-2''\<rparr>]\<rparr>)"
    by (simp add: example_meta_def example_conn_def)
  have ops: "delete_Operations \<lparr>delete_Operations = [Some \<lparr>op_Id = Some ''op-1''\<rparr>, Some \<lparr>op_Id = Some ''op-2''\<rparr>]\<rparr> =
               Some \<lparr>op_Id = Some ''op-1''\<rparr> # [Some \<lparr>op_Id = Some ''op-2''\<rparr>]"
    by simp
  have waited: "waitOperation (LightsailConn example_meta) (op_Id \<lparr>op_Id = Some ''op-1''\<rparr>) =
                  Some (ErrorString ''timeout while waiting'')"
    by (simp add: example_meta_def example_conn_def)
  show ?thesis
    using delete_wait_failure_fails [OF deleted ops waited]
    by (simp add: d_Id_def example_data_def)
qed

text \<open>
  Claim C1. When \<^verbatim>\<open>CreateInstances\<close> succeeds and returns at least one operation, and the
  wait on the first operation fails, \<^verbatim>\<open>resourceInstanceCreate\<close> writes one line to the log
  and goes on: its outcome is the outcome of \<^verbatim>\<open>resourceInstanceRead\<close> on the resource data
  with the identifier set to the name, so the error it returns is the one the read returns.
\<close>

theorem create_wait_failure_only_logged:
  assumes "CreateInstances (LightsailConn meta) (CreateInstancesInput_of h d meta) = Inr (Some resp)"
      and "create_Operations resp = Some op # later"
      and "waitOperation (LightsailConn meta) (op_Id op) = Some err"
  shows "resourceInstanceCreate h d meta =
           after [CallCreateInstances (CreateInstancesInput_of h d meta),
                  CallWaitOperation (op_Id op),
                  Log (''[ERR] Error waiting for instance ('' @ string_of (d_Get d ''name'') @
                       '') to become ready: '' @ Error err)]
             (resourceInstanceRead h (d_SetId (string_of (d_Get d ''name'')) d) meta)"
  using assms by (simp add: resourceInstanceCreate_def Let_def d_Id_def d_SetId_def)

theorem create_wait_failure_only_logged_witness:
  "resourceInstanceCreate example_helpers example_data example_meta =
     after [CallCreateInstances (CreateInstancesInput_of example_helpers example_data example_meta),
            CallWaitOperation (Some ''op-1''),
            Log ''[ERR] Error waiting for instance (test1) to become ready: timeout while waiting'']
       (resourceInstanceRead example_helpers example_data example_meta)"
proof -
  have created: "CreateInstances (LightsailConn example_meta)
                   (CreateInstancesInput_of example_helpers example_data example_meta) =
                 Inr (Some \<lparr>create_Operations = [Some \<lparr>op_Id = Some ''op-1''\<rparr>, Some \<lparr>op_Id = Some ''op-2''\<rparr>]\<rparr>)"
    by (simp add: example_meta_def example_conn_def)
  have ops: "create_Operations \<lparr>create_Operations = [Some \<lparr>op_Id = Some ''op-1''\<rparr>, Some \<lparr>op_Id = Some ''op-2''\<rparr>]\<rparr> =
               Some \<lparr>op_Id = Some ''op-1''\<rparr> # [Some \<lparr>op_Id = Some ''op-2''\<rparr>]"
    by simp
  have waited: "waitOperation (LightsailConn example_meta) (op_Id \<lparr>op_Id = Some ''op-1''\<rparr>) =
                  Some (ErrorString ''timeout while waiting'')"
    by (simp add: example_meta_def example_conn_def)
  have name: "string_of (d_Get example_data ''name'') = ''test1''"
    by (simp add: string_of_def d_Get_def example_data_def)
  have same: "d_SetId ''test1'' example_data = example_data"
    by (simp add: d_SetId_def example_data_def)
  show ?thesis
    using create_wait_failure_only_logged [OF created ops waited]
    by (simp add: name same)
qed

text \<open>
  Claim C9. \<^verbatim>\<open>resourceInstanceDelete\<close> takes the first element of the operations of a
  successful \<^verbatim>\<open>DeleteInstance\<close> response without a guard: the access is out of range, a
  panic and not a returned error, exactly when the response has no operation. The create
  and the update path have the guard: with no operation in the response they return the
  error \<^verbatim>\<open>No operations found for CreateInstance request\<close>.
\<close>

theorem delete_first_operation_unguarded:
  "(DeleteInstance (LightsailConn meta) \<lparr>del_InstanceName = Some (d_Id d)\<rparr> = Inr (Some dresp) \<longrightarrow>
      (delete_Operations dresp = []) =
      (resourceInstanceDelete d meta =
         Panic IndexOutOfRange [CallDeleteInstance \<lparr>del_InstanceName = Some (d_Id d)\<rparr>]))
   \<and> (CreateInstances (LightsailConn meta) (CreateInstancesInput_of h d meta) = Inr (Some cresp) \<longrightarrow>
      create_Operations cresp = [] \<longrightarrow>
      resourceInstanceCreate h d meta =
        Return (Some (ErrorString ''No operations found for CreateInstance request'')) d
          [CallCreateInstances (CreateInstancesInput_of h d meta)])
   \<and> (d_HasChange d ''ip_address_type'' \<longrightarrow>
      SetIpAddressType (LightsailConn meta)
         \<lparr>set_IpAddressType = Some (string_of (d_Get d ''ip_address_type'')),
           ResourceName = Some (d_Id d), ResourceType = Some ''Instance''\<rparr> = Inr (Some sresp) \<longrightarrow>
      set_Operations sresp = [] \<longrightarrow>
      resourceInstanceUpdate h d meta =
        Return (Some (ErrorString ''No operations found for CreateInstance request'')) d
          [CallSetIpAddressType
             \<lparr>set_IpAddressType = Some (string_of (d_Get d ''ip_address_type'')),
               ResourceName = Some (d_Id d), ResourceType = Some ''Instance''\<rparr>])"
  by (auto simp: resourceInstanceDelete_def resourceInstanceCreate_def resourceInstanceUpdate_def
        update_ip_address_type_def Let_def split: list.splits option.splits)

theorem delete_first_operation_unguarded_witness:
  "resourceInstanceDelete example_data
     (example_meta\<lparr>LightsailConn :=
        example_conn\<lparr>CreateInstances := \<lambda>req. Inr (Some \<lparr>create_Operations = []\<rparr>),
                     DeleteInstance := \<lambda>input. Inr (Some \<lparr>delete_Operations = []\<rparr>),
                     SetIpAddressType := \<lambda>input. Inr (Some \<lparr>set_Operations = []\<rparr>)\<rparr>\<rparr>) =
     Panic IndexOutOfRange [CallDeleteInstance \<lparr>del_InstanceName = Some ''test1''\<rparr>]
   \<and> resourceInstanceCreate example_helpers example_data
     (example_meta\<lparr>LightsailConn :=
        example_conn\<lparr>CreateInstances := \<lambda>req. Inr (Some \<lparr>create_Operations = []\<rparr>),
                     DeleteInstance := \<lambda>input. Inr (Some \<lparr>delete_Operations = []\<rparr>),
                     SetIpAddressType := \<lambda>input. Inr (Some \<lparr>set_Operations = []\<rparr>)\<rparr>\<rparr>) =
     Return (Some (ErrorString ''No operations found for CreateInstance request'')) example_data
       [CallCreateInstances (CreateInstancesInput_of example_helpers example_data example_meta)]
   \<and> resourceInstanceUpdate example_helpers example_data
     (example_meta\<lparr>LightsailConn :=
        example_conn\<lparr>CreateInstances := \<lambda>req. Inr (Some \<lparr>create_Operations = []\<rparr>),
                     DeleteInstance := \<lambda>input. Inr (Some \<lparr>delete_Operations = []\<rparr>),
                     SetIpAddressType := \<lambda>input. Inr (Some \<lparr>set_Operations = []\<rparr>)\<rparr>\<rparr>) =
     Return (Some (ErrorString ''No operations found for CreateInstance request'')) example_data
       [CallSetIpAddressType
          \<lparr>set_IpAddressType = Some ''ipv4'', ResourceName = Some ''test1'', ResourceType = Some ''Instance''\<rparr>]"
proof -
  let ?meta = "example_meta\<lparr>LightsailConn :=
        example_conn\<lparr>CreateInstances := \<lambda>req. Inr (Some \<lparr>create_Operations = []\<rparr>),
                     DeleteInstance := \<lambda>input. Inr (Some \<lparr>delete_Operations = []\<rparr>),
                     SetIpAddressType := \<lambda>input. Inr (Some \<lparr>set_Operations = []\<rparr>)\<rparr>\<rparr>"
  have changed: "d_HasChange example_data ''ip_address_type''"
    by (simp add: d_HasChange_def d_GetChange_def d_Get_def example_data_def)
  have address: "string_of (d_Get example_data ''ip_address_type'') = ''ipv4''"
    by (simp add: string_of_def d_Get_def example_data_def)
  have ident: "d_Id example_data = ''test1''"
    by (simp add: d_Id_def example_data_def)
  have request: "CreateInstancesInput_of example_helpers example_data ?meta =
                 CreateInstancesInput_of example_helpers example_data example_meta"
    by (simp add: CreateInstancesInput_of_def example_meta_def)
  show ?thesis
    using delete_first_operation_unguarded
            [of ?meta example_data "\<lparr>delete_Operations = []\<rparr>" example_helpers
                "\<lparr>create_Operations = []\<rparr>" "\<lparr>set_Operations = []\<rparr>"]
    by (simp add: changed address ident request)
qed


subsection \<open>Writing attributes\<close>

text \<open>A write of a value of the schema's type succeeds and stores the value under the key.\<close>


lemma d_Set_typed:
  assumes "map_of Schema k = Some t" and "case v of None \<Rightarrow> True | Some x \<Rightarrow> type_of x = Some t"
  shows "d_Set k v d = Inr (d\<lparr>attrs := (attrs d)(k := v)\<rparr>)"
  using assms by (cases v) (simp_all add: d_Set_def)

lemma d_Set_dropped_typed:
  assumes "map_of Schema k = Some t" and "case v of None \<Rightarrow> True | Some x \<Rightarrow> type_of x = Some t"
  shows "d_Set_dropped k v d = d\<lparr>attrs := (attrs d)(k := v)\<rparr>"
  by (simp add: d_Set_dropped_def d_Set_typed [OF assms])

lemma typed_string: "case map_option VString x of None \<Rightarrow> True | Some y \<Rightarrow> type_of y = Some TypeString"
  by (cases x) simp_all
lemma typed_int: "case map_option VInt x of None \<Rightarrow> True | Some y \<Rightarrow> type_of y = Some TypeInt"
  by (cases x) simp_all
lemma typed_float: "case map_option VFloat x of None \<Rightarrow> True | Some y \<Rightarrow> type_of y = Some TypeFloat"
  by (cases x) simp_all
lemma typed_bool: "case map_option VBool x of None \<Rightarrow> True | Some y \<Rightarrow> type_of y = Some TypeBool"
  by (cases x) simp_all

lemma set_string:
  "map_of Schema k = Some TypeString \<Longrightarrow>
     d_Set_dropped k (map_option VString x) d = d\<lparr>attrs := (attrs d)(k := map_option VString x)\<rparr>"
  by (rule d_Set_dropped_typed [OF _ typed_string])

lemma set_string_value:
  "map_of Schema k = Some TypeString \<Longrightarrow>
     d_Set_dropped k (Some (VString s)) d = d\<lparr>attrs := (attrs d)(k \<mapsto> VString s)\<rparr>"
  by (rule d_Set_dropped_typed) simp_all

lemma set_int:
  "map_of Schema k = Some TypeInt \<Longrightarrow>
     d_Set_dropped k (map_option VInt x) d = d\<lparr>attrs := (attrs d)(k := map_option VInt x)\<rparr>"
  by (rule d_Set_dropped_typed [OF _ typed_int])

lemma set_float:
  "map_of Schema k = Some TypeFloat \<Longrightarrow>
     d_Set_dropped k (map_option VFloat x) d = d\<lparr>attrs := (attrs d)(k := map_option VFloat x)\<rparr>"
  by (rule d_Set_dropped_typed [OF _ typed_float])

lemma set_bool:
  "map_of Schema k = Some TypeBool \<Longrightarrow>
     d_Set_dropped k (map_option VBool x) d = d\<lparr>attrs := (attrs d)(k := map_option VBool x)\<rparr>"
  by (rule d_Set_dropped_typed [OF _ typed_bool])

lemma set_list:
  "map_of Schema k = Some TypeList \<Longrightarrow>
     d_Set_dropped k (Some (VList xs)) d = d\<lparr>attrs := (attrs d)(k \<mapsto> VList xs)\<rparr>"
  by (rule d_Set_dropped_typed) simp_all

lemma set_map:
  "map_of Schema k = Some TypeMap \<Longrightarrow>
     d_Set k (Some (VMap m)) d = Inr (d\<lparr>attrs := (attrs d)(k \<mapsto> VMap m)\<rparr>)"
  by (rule d_Set_typed) simp_all

lemmas sets = set_string set_string_value set_int set_float set_bool set_list set_map

lemma schema_types:
  "map_of Schema ''availability_zone'' = Some TypeString"
  "map_of Schema ''blueprint_id'' = Some TypeString"
  "map_of Schema ''bundle_id'' = Some TypeString"
  "map_of Schema ''key_pair_name'' = Some TypeString"
  "map_of Schema ''name'' = Some TypeString"
  "map_of Schema ''arn'' = Some TypeString"
  "map_of Schema ''username'' = Some TypeString"
  "map_of Schema ''created_at'' = Some TypeString"
  "map_of Schema ''cpu_count'' = Some TypeInt"
  "map_of Schema ''ram_size'' = Some TypeFloat"
  "map_of Schema ''ipv6_address'' = Some TypeString"
  "map_of Schema ''ipv6_addresses'' = Some TypeList"
  "map_of Schema ''ip_address_type'' = Some TypeString"
  "map_of Schema ''is_static_ip'' = Some TypeBool"
  "map_of Schema ''private_ip_address'' = Some TypeString"
  "map_of Schema ''public_ip_address'' = Some TypeString"
  "map_of Schema ''tags'' = Some TypeMap"
  "map_of Schema ''tags_all'' = Some TypeMap"
  by (simp_all add: Schema_def)

lemma read_outcome:
  "resourceInstanceRead h d meta =
     (case GetInstance (LightsailConn meta) \<lparr>get_InstanceName = Some (d_Id d)\<rparr> of
        Inl err \<Rightarrow>
          (if \<exists>msg. err = AwsError ''NotFoundException'' msg
           then Return None (d_SetId [] d)
                  [CallGetInstance \<lparr>get_InstanceName = Some (d_Id d)\<rparr>,
                   Log (''[WARN] Lightsail Instance ('' @ d_Id d @ '') not found, removing from state'')]
           else Return (Some err) d [CallGetInstance \<lparr>get_InstanceName = Some (d_Id d)\<rparr>])
      | Inr None \<Rightarrow>
          Return None (d_SetId [] d)
            [CallGetInstance \<lparr>get_InstanceName = Some (d_Id d)\<rparr>,
             Log (''[WARN] Lightsail Instance ('' @ d_Id d @
                  '') not found, nil response from server, removing from state'')]
      | Inr (Some resp) \<Rightarrow>
          (case out_Instance resp of
             None \<Rightarrow> Panic NilPointerDereference [CallGetInstance \<lparr>get_InstanceName = Some (d_Id d)\<rparr>]
           | Some i \<Rightarrow>
          (case Location i of
             None \<Rightarrow> Panic NilPointerDereference [CallGetInstance \<lparr>get_InstanceName = Some (d_Id d)\<rparr>]
           | Some loc \<Rightarrow>
          (case CreatedAt i of
             None \<Rightarrow> Panic NilPointerDereference [CallGetInstance \<lparr>get_InstanceName = Some (d_Id d)\<rparr>]
           | Some t \<Rightarrow>
          (case Hardware i of
             None \<Rightarrow> Panic NilPointerDereference [CallGetInstance \<lparr>get_InstanceName = Some (d_Id d)\<rparr>]
           | Some hw \<Rightarrow>
               Return None (d\<lparr>attrs := write_all (read_writes h meta i loc t hw) (attrs d)\<rparr>)
                 [CallGetInstance \<lparr>get_InstanceName = Some (d_Id d)\<rparr>])))))"
proof (cases "GetInstance (LightsailConn meta) \<lparr>get_InstanceName = Some (d_Id d)\<rparr>")
  case (Inl err)
  then show ?thesis by (cases err) (auto simp: resourceInstanceRead_def Let_def)
next
  case (Inr answer)
  show ?thesis
  proof (cases answer)
    case None
    with Inr show ?thesis by (simp add: resourceInstanceRead_def Let_def)
  next
    case (Some resp)
    with Inr have got: "GetInstance (LightsailConn meta) \<lparr>get_InstanceName = Some (d_Id d)\<rparr> = Inr (Some resp)"
      by simp
    show ?thesis
    proof (cases "out_Instance resp")
      case None
      with got show ?thesis by (simp add: resourceInstanceRead_def Let_def)
    next
      case inst: (Some i)
      show ?thesis
      proof (cases "Location i")
        case None
        with got inst show ?thesis by (simp add: resourceInstanceRead_def Let_def)
      next
        case loc: (Some loc)
        show ?thesis
        proof (cases "CreatedAt i")
          case None
          with got inst loc show ?thesis by (simp add: resourceInstanceRead_def Let_def)
        next
          case created: (Some t)
          show ?thesis
          proof (cases "Hardware i")
            case None
            with got inst loc created show ?thesis by (simp add: resourceInstanceRead_def Let_def)
          next
            case (Some hw)
            with got inst loc created show ?thesis
              by (simp add: resourceInstanceRead_def Let_def sets schema_types read_writes_def write_all_def)
          qed
        qed
      qed
    qed
  qed
qed

lemma write_all_Cons: "write_all ((k, v) # kvs) m = write_all kvs (m(k := v))"
  by (simp add: write_all_def)

lemma write_all_apply:
  "write_all kvs m x = (case map_of (rev kvs) x of None \<Rightarrow> m x | Some v \<Rightarrow> v)"
proof (induction kvs arbitrary: m)
  case Nil
  show ?case by (simp add: write_all_def)
next
  case (Cons kv kvs)
  obtain k v where kv: "kv = (k, v)" by (cases kv)
  show ?case
    by (simp add: kv write_all_Cons Cons.IH map_add_def split: option.split)
qed

lemma write_all_twice: "write_all kvs (write_all kvs m) = write_all kvs m"
  by (rule ext) (simp add: write_all_apply split: option.split)

lemma read_waits_nothing: "waits (events (resourceInstanceRead h d meta)) = []"
  by (simp add: read_outcome split: sum.split option.split)

lemma read_writes_conn:
  "read_writes h (meta\<lparr>LightsailConn := c\<rparr>) i loc t hw = read_writes h meta i loc t hw"
  by (simp add: read_writes_def)

lemma read_first_only:
  "resourceInstanceRead h d (meta\<lparr>LightsailConn := first_only (LightsailConn meta)\<rparr>) =
   resourceInstanceRead h d meta"
  by (simp add: read_outcome first_only_def read_writes_conn split: sum.split option.split)



subsection \<open>Events and later operations\<close>

lemma waits_append: "waits (xs @ ys) = waits xs @ waits ys"
  by (induction xs rule: waits.induct) simp_all

lemma events_after: "events (after evs out) = evs @ events out"
  by (cases out) simp_all

lemma request_conn:
  "CreateInstancesInput_of h d (meta\<lparr>LightsailConn := c\<rparr>) = CreateInstancesInput_of h d meta"
  by (simp add: CreateInstancesInput_of_def)

lemma take_one_empty: "(take (Suc 0) xs = []) = (xs = [])"
  by (cases xs) simp_all

lemma take_one_first: "xs \<noteq> [] \<Longrightarrow> take (Suc 0) xs ! 0 = xs ! 0"
  by (cases xs) simp_all

lemma create_first_only:
  "resourceInstanceCreate h d (meta\<lparr>LightsailConn := first_only (LightsailConn meta)\<rparr>) =
   resourceInstanceCreate h d meta"
proof -
  let ?meta = "meta\<lparr>LightsailConn := first_only (LightsailConn meta)\<rparr>"
  have wait: "waitOperation (first_only (LightsailConn meta)) = waitOperation (LightsailConn meta)"
    by (simp add: first_only_def)
  have call: "CreateInstances (first_only (LightsailConn meta)) req =
                map_sum id (map_option (\<lambda>resp. resp\<lparr>create_Operations := take 1 (create_Operations resp)\<rparr>))
                  (CreateInstances (LightsailConn meta) req)" for req
    by (simp add: first_only_def)
  show ?thesis
  proof (cases "CreateInstances (LightsailConn meta) (CreateInstancesInput_of h d meta)")
    case (Inl err)
    then show ?thesis
      by (simp add: resourceInstanceCreate_def request_conn call Let_def)
  next
    case (Inr answer)
    show ?thesis
    proof (cases answer)
      case None
      with Inr show ?thesis
        by (simp add: resourceInstanceCreate_def request_conn call Let_def)
    next
      case (Some resp)
      show ?thesis
      proof (cases "create_Operations resp")
        case Nil
        with Inr Some show ?thesis
          by (simp add: resourceInstanceCreate_def request_conn call Let_def)
      next
        case (Cons op later)
        with Inr Some show ?thesis
          by (simp add: resourceInstanceCreate_def request_conn call wait Let_def read_first_only
                split: option.split)
      qed
    qed
  qed
qed

lemma delete_first_only:
  "resourceInstanceDelete d (meta\<lparr>LightsailConn := first_only (LightsailConn meta)\<rparr>) =
   resourceInstanceDelete d meta"
  by (cases "DeleteInstance (LightsailConn meta) \<lparr>del_InstanceName = Some (d_Id d)\<rparr>")
     (auto simp: resourceInstanceDelete_def first_only_def Let_def split: option.splits list.splits)

lemma update_ip_first_only:
  "update_ip_address_type d (first_only conn) = update_ip_address_type d conn"
proof -
  let ?input = "\<lparr>set_IpAddressType = Some (string_of (d_Get d ''ip_address_type'')),
                 ResourceName = Some (d_Id d), ResourceType = Some ''Instance''\<rparr>"
  show ?thesis
  proof (cases "SetIpAddressType conn ?input")
    case (Inl err)
    then show ?thesis by (simp add: update_ip_address_type_def first_only_def Let_def)
  next
    case (Inr answer)
    show ?thesis
    proof (cases answer)
      case None
      with Inr show ?thesis by (simp add: update_ip_address_type_def first_only_def Let_def)
    next
      case (Some resp)
      with Inr show ?thesis
        by (cases "set_Operations resp")
           (simp_all add: update_ip_address_type_def first_only_def Let_def split: option.split)
    qed
  qed
qed

lemma update_tags_first_only:
  "update_tags_all d (first_only conn) called = update_tags_all d conn called"
  by (simp add: update_tags_all_def first_only_def)

lemma update_first_only:
  "resourceInstanceUpdate h d (meta\<lparr>LightsailConn := first_only (LightsailConn meta)\<rparr>) =
   resourceInstanceUpdate h d meta"
  by (simp add: resourceInstanceUpdate_def Let_def update_ip_first_only update_tags_first_only
        read_first_only split: sum.split)

lemma create_waits:
  assumes "CreateInstances (LightsailConn meta) (CreateInstancesInput_of h d meta) = Inr (Some resp)"
      and "create_Operations resp = Some op # later"
  shows "waits (events (resourceInstanceCreate h d meta)) = [op_Id op]"
  using assms
  by (simp add: resourceInstanceCreate_def Let_def events_after waits_append read_waits_nothing
        split: option.split)

lemma delete_waits:
  assumes "DeleteInstance (LightsailConn meta) \<lparr>del_InstanceName = Some (d_Id d)\<rparr> = Inr (Some resp)"
      and "delete_Operations resp = Some op # later"
  shows "waits (events (resourceInstanceDelete d meta)) = [op_Id op]"
  using assms by (simp add: resourceInstanceDelete_def Let_def split: option.split)

lemma update_tags_waits:
  "update_tags_all d conn called = Inl out \<Longrightarrow> waits (events out) = waits called"
  "update_tags_all d conn called = Inr evs \<Longrightarrow> waits evs = waits called"
  by (auto simp: update_tags_all_def Let_def waits_append split: if_splits prod.splits option.splits)

lemma update_waits:
  assumes "d_HasChange d ''ip_address_type''"
      and "SetIpAddressType (LightsailConn meta)
             \<lparr>set_IpAddressType = Some (string_of (d_Get d ''ip_address_type'')),
               ResourceName = Some (d_Id d), ResourceType = Some ''Instance''\<rparr> = Inr (Some resp)"
      and "set_Operations resp = Some op # later"
  shows "waits (events (resourceInstanceUpdate h d meta)) = [op_Id op]"
proof (cases "waitOperation (LightsailConn meta) (op_Id op)")
  case (Some err)
  with assms show ?thesis
    by (simp add: resourceInstanceUpdate_def update_ip_address_type_def Let_def)
next
  case None
  let ?called = "[CallSetIpAddressType
                    \<lparr>set_IpAddressType = Some (string_of (d_Get d ''ip_address_type'')),
                      ResourceName = Some (d_Id d), ResourceType = Some ''Instance''\<rparr>,
                  CallWaitOperation (op_Id op)]"
  from None assms have ip: "update_ip_address_type d (LightsailConn meta) = Inr ?called"
    by (simp add: update_ip_address_type_def Let_def)
  show ?thesis
  proof (cases "update_tags_all d (LightsailConn meta) ?called")
    case (Inl out)
    then show ?thesis
      using update_tags_waits(1) [OF Inl] by (simp add: resourceInstanceUpdate_def ip)
  next
    case (Inr evs)
    then show ?thesis
      using update_tags_waits(2) [OF Inr]
      by (simp add: resourceInstanceUpdate_def ip events_after waits_append read_waits_nothing)
  qed
qed



subsection \<open>The handlers and the operations of a response\<close>

text \<open>
  Claim C4. When the response of a mutating call (\<^verbatim>\<open>CreateInstances\<close>, \<^verbatim>\<open>DeleteInstance\<close>,
  \<^verbatim>\<open>SetIpAddressType\<close>) holds one or more operations, the handler waits exactly once, on the
  identifier of the first operation. It never looks at a later operation: against a
  connection whose responses are cut after their first operation, each handler has the
  same outcome (returned error, resource data, log lines and calls).
\<close>

theorem handlers_wait_on_first_operation_only:
  "(CreateInstances (LightsailConn meta) (CreateInstancesInput_of h d meta) = Inr (Some cresp) \<longrightarrow>
      create_Operations cresp = Some cop # clater \<longrightarrow>
      waits (events (resourceInstanceCreate h d meta)) = [op_Id cop])
   \<and> (DeleteInstance (LightsailConn meta) \<lparr>del_InstanceName = Some (d_Id d)\<rparr> = Inr (Some dresp) \<longrightarrow>
      delete_Operations dresp = Some dop # dlater \<longrightarrow>
      waits (events (resourceInstanceDelete d meta)) = [op_Id dop])
   \<and> (d_HasChange d ''ip_address_type'' \<longrightarrow>
      SetIpAddressType (LightsailConn meta)
         \<lparr>set_IpAddressType = Some (string_of (d_Get d ''ip_address_type'')),
           ResourceName = Some (d_Id d), ResourceType = Some ''Instance''\<rparr> = Inr (Some sresp) \<longrightarrow>
      set_Operations sresp = Some sop # slater \<longrightarrow>
      waits (events (resourceInstanceUpdate h d meta)) = [op_Id sop])
   \<and> resourceInstanceCreate h d (meta\<lparr>LightsailConn := first_only (LightsailConn meta)\<rparr>) =
       resourceInstanceCreate h d meta
   \<and> resourceInstanceDelete d (meta\<lparr>LightsailConn := first_only (LightsailConn meta)\<rparr>) =
       resourceInstanceDelete d meta
   \<and> resourceInstanceUpdate h d (meta\<lparr>LightsailConn := first_only (LightsailConn meta)\<rparr>) =
       resourceInstanceUpdate h d meta"
  using create_waits [of meta h d cresp cop clater] delete_waits [of meta d dresp dop dlater]
        update_waits [of d meta sresp sop slater h]
  by (simp add: create_first_only delete_first_only update_first_only)

theorem handlers_wait_on_first_operation_only_witness:
  "waits (events (resourceInstanceCreate example_helpers example_data example_meta)) = [Some ''op-1'']
   \<and> waits (events (resourceInstanceDelete example_data example_meta)) = [Some ''op-1'']
   \<and> waits (events (resourceInstanceUpdate example_helpers example_data example_meta)) = [Some ''op-1'']"
proof -
  have created: "CreateInstances (LightsailConn example_meta)
                   (CreateInstancesInput_of example_helpers example_data example_meta) =
                 Inr (Some \<lparr>create_Operations = [Some \<lparr>op_Id = Some ''op-1''\<rparr>, Some \<lparr>op_Id = Some ''op-2''\<rparr>]\<rparr>)"
    by (simp add: example_meta_def example_conn_def)
  have deleted: "DeleteInstance (LightsailConn example_meta) \<lparr>del_InstanceName = Some (d_Id example_data)\<rparr> =
                 Inr (Some \<lparr>delete_Operations = [Some \<lparr>op_Id = Some ''op-1''\<rparr>, Some \<lparr>op_Id = Some ''op-2''\<rparr>]\<rparr>)"
    by (simp add: example_meta_def example_conn_def)
  have changed: "d_HasChange example_data ''ip_address_type''"
    by (simp add: d_HasChange_def d_GetChange_def d_Get_def example_data_def)
  have address: "SetIpAddressType (LightsailConn example_meta)
                   \<lparr>set_IpAddressType = Some (string_of (d_Get example_data ''ip_address_type'')),
                     ResourceName = Some (d_Id example_data), ResourceType = Some ''Instance''\<rparr> =
                 Inr (Some \<lparr>set_Operations = [Some \<lparr>op_Id = Some ''op-1''\<rparr>, Some \<lparr>op_Id = Some ''op-2''\<rparr>]\<rparr>)"
    by (simp add: example_meta_def example_conn_def)
  show ?thesis
    using handlers_wait_on_first_operation_only
            [of example_meta example_helpers example_data
                "\<lparr>create_Operations = [Some \<lparr>op_Id = Some ''op-1''\<rparr>, Some \<lparr>op_Id = Some ''op-2''\<rparr>]\<rparr>"
                "\<lparr>op_Id = Some ''op-1''\<rparr>" "[Some \<lparr>op_Id = Some ''op-2''\<rparr>]"
                "\<lparr>delete_Operations = [Some \<lparr>op_Id = Some ''op-1''\<rparr>, Some \<lparr>op_Id = Some ''op-2''\<rparr>]\<rparr>"
                "\<lparr>op_Id = Some ''op-1''\<rparr>" "[Some \<lparr>op_Id = Some ''op-2''\<rparr>]"
                "\<lparr>set_Operations = [Some \<lparr>op_Id = Some ''op-1''\<rparr>, Some \<lparr>op_Id = Some ''op-2''\<rparr>]\<rparr>"
                "\<lparr>op_Id = Some ''op-1''\<rparr>" "[Some \<lparr>op_Id = Some ''op-2''\<rparr>]"]
    by (simp add: created deleted changed address)
qed

subsection \<open>Reading twice\<close>

text \<open>
  Claim C8. Against a connection whose \<^verbatim>\<open>GetInstance\<close> gives one fixed answer, a second
  \<^verbatim>\<open>resourceInstanceRead\<close> right after a first one changes nothing: it returns the same
  error and leaves the resource data (identifier and attributes) as the first read left
  them.
\<close>

theorem read_twice_same_attributes:
  assumes fixed: "GetInstance (LightsailConn meta) = (\<lambda>input. answer)"
      and first: "resourceInstanceRead h d meta = Return err d' evs"
  shows "\<exists>evs'. resourceInstanceRead h d' meta = Return err d' evs'"
  using first
  by (auto simp: read_outcome fixed write_all_twice d_SetId_def split: sum.splits option.splits if_splits)

theorem read_twice_same_attributes_witness:
  "\<exists>evs'. resourceInstanceRead example_helpers
            (example_data\<lparr>attrs :=
               write_all (read_writes example_helpers example_meta example_instance
                            \<lparr>AvailabilityZone = Some ''us-east-1a''\<rparr> 1667260800
                            \<lparr>CpuCount = Some 1, RamSizeInGb = Some 4602678819172646912\<rparr>)
                 (attrs example_data)\<rparr>) example_meta =
          Return None
            (example_data\<lparr>attrs :=
               write_all (read_writes example_helpers example_meta example_instance
                            \<lparr>AvailabilityZone = Some ''us-east-1a''\<rparr> 1667260800
                            \<lparr>CpuCount = Some 1, RamSizeInGb = Some 4602678819172646912\<rparr>)
                 (attrs example_data)\<rparr>) evs'"
proof -
  have fixed: "GetInstance (LightsailConn example_meta) =
                 (\<lambda>input. Inr (Some \<lparr>out_Instance = Some example_instance\<rparr>))"
    by (simp add: example_meta_def example_conn_def)
  have first: "resourceInstanceRead example_helpers example_data example_meta =
                 Return None
                   (example_data\<lparr>attrs :=
                      write_all (read_writes example_helpers example_meta example_instance
                                   \<lparr>AvailabilityZone = Some ''us-east-1a''\<rparr> 1667260800
                                   \<lparr>CpuCount = Some 1, RamSizeInGb = Some 4602678819172646912\<rparr>)
                        (attrs example_data)\<rparr>)
                   [CallGetInstance \<lparr>get_InstanceName = Some (d_Id example_data)\<rparr>]"
    by (simp add: read_outcome fixed) (simp add: example_instance_def)
  show ?thesis
    by (rule read_twice_same_attributes [OF fixed first])
qed

subsection \<open>Default tags\<close>

text \<open>
  Claim C6. Take a read that finds the instance (with its location, creation time and
  hardware), and a tag of the instance that the read keeps (the two ignore filters let
  it through) and that the default tag configuration of the provider holds with the same
  value, as a tag coming from the defaults alone does. After the read, \<^verbatim>\<open>tags_all\<close> holds
  the tag, and \<^verbatim>\<open>tags\<close> has no tag under its key.
\<close>

theorem default_tag_in_tags_all_not_in_tags:
  assumes "GetInstance (LightsailConn meta) \<lparr>get_InstanceName = Some (d_Id d)\<rparr> = Inr (Some resp)"
      and "out_Instance resp = Some i" and "Location i = Some loc"
      and "CreatedAt i = Some t" and "Hardware i = Some hw"
      and "tags_IgnoreConfig h (IgnoreTagsConfig meta) (tags_IgnoreAWS h (KeyValueTags_of h (Tags i))) k = Some v"
      and "default_Tags (DefaultTagsConfig meta) k = Some v"
  shows "\<exists>d' evs all_tags own_tags.
           resourceInstanceRead h d meta = Return None d' evs \<and>
           attrs d' ''tags_all'' = Some (VMap all_tags) \<and> all_tags k = Some v \<and>
           attrs d' ''tags'' = Some (VMap own_tags) \<and> own_tags k = None"
  using assms
  by (simp add: read_outcome write_all_apply read_writes_def tags_Map_def tags_RemoveDefaultConfig_def)

theorem default_tag_in_tags_all_not_in_tags_witness:
  "\<exists>d' evs all_tags own_tags.
     resourceInstanceRead example_helpers example_data example_meta = Return None d' evs \<and>
     attrs d' ''tags_all'' = Some (VMap all_tags) \<and> all_tags ''team'' = Some ''infra'' \<and>
     attrs d' ''tags'' = Some (VMap own_tags) \<and> own_tags ''team'' = None"
proof -
  have got: "GetInstance (LightsailConn example_meta) \<lparr>get_InstanceName = Some (d_Id example_data)\<rparr> =
               Inr (Some \<lparr>out_Instance = Some example_instance\<rparr>)"
    by (simp add: example_meta_def example_conn_def)
  have inst: "out_Instance \<lparr>out_Instance = Some example_instance\<rparr> = Some example_instance"
    by simp
  have loc: "Location example_instance = Some \<lparr>AvailabilityZone = Some ''us-east-1a''\<rparr>"
    by (simp add: example_instance_def)
  have created: "CreatedAt example_instance = Some 1667260800"
    by (simp add: example_instance_def)
  have hw: "Hardware example_instance = Some \<lparr>CpuCount = Some 1, RamSizeInGb = Some 4602678819172646912\<rparr>"
    by (simp add: example_instance_def)
  have kept: "tags_IgnoreConfig example_helpers (IgnoreTagsConfig example_meta)
                (tags_IgnoreAWS example_helpers (KeyValueTags_of example_helpers (Tags example_instance)))
                ''team'' = Some ''infra''"
    by (simp add: example_helpers_def example_meta_def example_instance_def)
  have default: "default_Tags (DefaultTagsConfig example_meta) ''team'' = Some ''infra''"
    by (simp add: example_meta_def)
  show ?thesis
    by (rule default_tag_in_tags_all_not_in_tags [OF got inst loc created hw kept default])
qed

subsection \<open>Waiting for an operation\<close>

lemma await_from_pending:
  assumes pos: "\<forall>n. 0 < delay p n"
      and pend: "\<forall>t<ceiling p. fetch t = Status Pending"
  shows "await_from p fetch left seen n t = Some Timeout"
proof (induction "ceiling p - t" arbitrary: t n seen rule: less_induct)
  case less
  show ?case
  proof (cases "ceiling p \<le> t")
    case True
    then show ?thesis by (subst await_from.simps) simp
  next
    case False
    then have now: "fetch t = Status Pending" using pend by simp
    have "0 < delay p n" using pos by simp
    then have "ceiling p - (t + delay p n) < ceiling p - t" using False by arith
    then have "await_from p fetch left True (Suc n) (t + delay p n) = Some Timeout"
      by (rule less)
    then show ?thesis using False now by (subst await_from.simps) simp
  qed
qed

lemma await_from_failure:
  assumes "await_from p fetch left seen n t = Some r"
  shows "\<forall>reason. r = Failure reason \<longrightarrow> (\<exists>u<ceiling p. fetch u = Status (Failed reason))"
proof (rule await_from.raw_induct
         [where P = "\<lambda>p fetch left seen n t r.
                       \<forall>reason. r = Failure reason \<longrightarrow> (\<exists>u<ceiling p. fetch u = Status (Failed reason))",
          OF _ assms])
  fix loop :: "await_policy \<Rightarrow> (nat \<Rightarrow> fetched) \<Rightarrow> nat \<Rightarrow> bool \<Rightarrow> nat \<Rightarrow> nat \<Rightarrow> await_result option"
  fix p :: await_policy and fetch :: "nat \<Rightarrow> fetched" and left :: nat and seen :: bool
    and n t :: nat and r :: await_result
  assume hyp: "\<And>p fetch left seen n t y. loop p fetch left seen n t = Some y \<Longrightarrow>
                 \<forall>reason. y = Failure reason \<longrightarrow> (\<exists>u<ceiling p. fetch u = Status (Failed reason))"
  assume step: "(if ceiling p \<le> t then Some Timeout
      else case fetch t of
           Status Pending \<Rightarrow> loop p fetch left True (Suc n) (t + delay p n)
           | Status Succeeded \<Rightarrow> Some Terminal
           | Status (Failed reason) \<Rightarrow> Some (Failure reason)
           | LookupError \<Rightarrow>
               if left = 0 then Some TransientAPIError
               else loop p fetch (left - 1) seen (Suc n) (t + delay p n)
           | OperationNotFound \<Rightarrow>
               if \<not> seen then Some Misuse
               else if left = 0 then Some TransientAPIError
                    else loop p fetch (left - 1) seen (Suc n) (t + delay p n)) = Some r"
  show "\<forall>reason. r = Failure reason \<longrightarrow> (\<exists>u<ceiling p. fetch u = Status (Failed reason))"
  proof (cases "ceiling p \<le> t")
    case True
    with step show ?thesis by auto
  next
    case before: False
    show ?thesis
    proof (cases "fetch t")
      case (Status s)
      show ?thesis
      proof (cases s)
        case Pending
        with Status before step have "loop p fetch left True (Suc n) (t + delay p n) = Some r" by simp
        then show ?thesis by (rule hyp)
      next
        case Succeeded
        with Status before step show ?thesis by auto
      next
        case (Failed why)
        with Status before step have "r = Failure why" by simp
        moreover have "t < ceiling p" using before by simp
        ultimately show ?thesis using Status Failed by auto
      qed
    next
      case LookupError
      show ?thesis
      proof (cases "left = 0")
        case True
        with LookupError before step show ?thesis by auto
      next
        case False
        with LookupError before step
        have "loop p fetch (left - 1) seen (Suc n) (t + delay p n) = Some r" by simp
        then show ?thesis by (rule hyp)
      qed
    next
      case OperationNotFound
      show ?thesis
      proof (cases "\<not> seen \<or> left = 0")
        case True
        with OperationNotFound before step show ?thesis by (auto split: if_splits)
      next
        case False
        with OperationNotFound before step
        have "loop p fetch (left - 1) seen (Suc n) (t + delay p n) = Some r" by simp
        then show ?thesis by (rule hyp)
      qed
    qed
  qed
qed

text \<open>
  Claim C7. When every status fetched before the maximum wait duration is the pending
  one (the operation never reaches a terminal state in time) and the intervals are
  positive, the wait returns, and what it returns is the timeout, not a failure. And
  whatever the vendor answers, the wait returns a failure with a reason only when the
  vendor reported a terminal failure with that reason before the maximum wait duration:
  a timeout is never turned into a vendor-reported failure.
\<close>

theorem await_timeout_is_not_failure:
  "((\<forall>n. 0 < delay p n) \<longrightarrow> (\<forall>t<ceiling p. vendor oid t = Status Pending) \<longrightarrow>
      await p vendor oid = Some Timeout \<and> (\<forall>reason. await p vendor oid \<noteq> Some (Failure reason)))
   \<and> (await p' vendor' oid' = Some (Failure reason') \<longrightarrow>
        (\<exists>t<ceiling p'. vendor' oid' t = Status (Failed reason')))"
  using await_from_pending [of p "vendor oid" "retries p" False 0 0]
        await_from_failure [of p' "vendor' oid'" "retries p'" False 0 0 "Failure reason'"]
  by (simp add: await_def)

theorem await_timeout_is_not_failure_witness:
  "await \<lparr>delay = (\<lambda>n. 5), ceiling = 20, retries = 3\<rparr> (\<lambda>oid t. Status Pending) ''op-1'' = Some Timeout
   \<and> (\<exists>t::nat. t < 20 \<and> (if t < 10 then Status Pending else Status (Failed ''quota'')) = Status (Failed ''quota''))"
proof -
  have failed: "await \<lparr>delay = (\<lambda>n. 5), ceiling = 20, retries = 3\<rparr>
                  (\<lambda>oid t. if t < 10 then Status Pending else Status (Failed ''quota'')) ''op-1'' =
                Some (Failure ''quota'')"
    by (simp add: await_def await_from.simps)
  show ?thesis
    using await_timeout_is_not_failure
            [of "\<lparr>delay = (\<lambda>n. 5), ceiling = 20, retries = 3\<rparr>" "\<lambda>oid t. Status Pending" "''op-1''"
                "\<lparr>delay = (\<lambda>n. 5), ceiling = 20, retries = 3\<rparr>"
                "\<lambda>oid t. if t < 10 then Status Pending else Status (Failed ''quota'')" "''op-1''" "''quota''"]
          failed
    by simp
qed

subsection \<open>The name\<close>

text \<open>
  Claim C5. The validation of \<^verbatim>\<open>name\<close> is meant to accept exactly the names that start
  with an alphabetic character, hold only characters of \<^verbatim>\<open>[A-Za-z0-9_.-]\<close>, do not end with
  a dot, an underscore or a hyphen and have a length between 2 and 255. The second
  pattern ends with \<^verbatim>\<open>[^._\-]\<close>, which takes any last character but those three: the name
  \<^verbatim>\<open>ab!\<close> passes the validation, though the exclamation mark is not a character of a name.
\<close>

theorem name_with_other_last_character_accepted:
  "name_accepted (map of_char ''ab!'') \<and> \<not> spec_name_valid (map of_char ''ab!'')"
  by (simp add: name_accepted_def name_ValidateFunc_def All_def StringLenBetween_def StringMatch_def
        MatchString_def full_match_def begins_alphabetic_def name_characters_def in_class_def
        AnyChar_def len_def RuneLen_def spec_name_valid_def name_character_def alphabetic_def)

end
